theory Spec2Isabelle
  imports Main
begin

section \<open>The message class generator of the protobuf-ts plugin\<close>

text \<open>
  A shallow embedding of \<^verbatim>\<open>packages/plugin/src/code-gen/message-class-generator.ts\<close>.
  The generator walks the field metadata of a message (the runtime's \<^verbatim>\<open>FieldInfo\<close>
  list) next to the schema descriptor of the message and builds the syntax tree of a class
  whose constructor has one parameter property per field, a oneof group being one
  parameter typed by a discriminated union.
\<close>

subsection \<open>Runtime enumerations\<close>

text \<open>
  Modelled from the spec: the declarations of \<^verbatim>\<open>rt.ScalarType\<close>,
  \<^verbatim>\<open>rt.LongType\<close> and \<^verbatim>\<open>rt.RepeatType\<close> live in the runtime package. The members are
  the ones the switch of \<^verbatim>\<open>createScalarTypeNode\<close> names, which are the scalar kinds of the
  data model (bool, text, bytes, the two floats, the 32 bit and the 64 bit integers), and
  the three long representations. The members of \<^verbatim>\<open>LongType\<close> carry a prefix, since
  \<^verbatim>\<open>STRING\<close> is a member of both enumerations.
\<close>

datatype ScalarType =
    DOUBLE | FLOAT | INT64 | UINT64 | INT32 | FIXED64 | FIXED32 | BOOL | STRING | BYTES
  | UINT32 | SFIXED32 | SFIXED64 | SINT32 | SINT64

datatype LongType = LongType_BIGINT | LongType_STRING | LongType_NUMBER

text \<open>
  The generator tests the truthiness of \<^verbatim>\<open>fieldInfo.repeat\<close> only; \<^verbatim>\<open>RepeatType.NO\<close>
  is the number 0, the one member that is falsy.
\<close>

datatype RepeatType = NO | PACKED | UNPACKED

subsection \<open>The syntax tree built through the compiler's factory\<close>

text \<open>
  The factory functions of the TypeScript compiler (\<^verbatim>\<open>ts.createKeywordTypeNode\<close>,
  \<^verbatim>\<open>ts.createParameter\<close>, ...) are constructors here: a node records the arguments it
  was made from. An argument the source may pass as \<^verbatim>\<open>undefined\<close> is an option.
\<close>

datatype SyntaxKind =
    BooleanKeyword | StringKeyword | NumberKeyword | BigIntKeyword | UndefinedKeyword
  | PublicKeyword | ReadonlyKeyword | ExportKeyword | QuestionToken

datatype Literal = StringLiteral string

datatype TypeNode =
    KeywordTypeNode SyntaxKind
  | TypeReferenceNode string
  | LiteralTypeNode Literal
  | ArrayTypeNode "TypeNode option"
  | TypeLiteralNode "TypeElement list"
  | UnionTypeNode "TypeNode list"
and TypeElement =
    PropertySignature string "SyntaxKind option" "TypeNode option"
  | IndexSignature "ParameterDeclaration list" "TypeNode option"
and ParameterDeclaration =
    Parameter "SyntaxKind list" string "SyntaxKind option" "TypeNode option"

datatype Statement =
    ClassDeclaration "SyntaxKind list" string "ClassElement list"
  | ImportDeclaration string
and ClassElement =
    Constructor "ParameterDeclaration list" Block
and Block =
    Block "Statement list" bool

text \<open>
  The file under generation is a mutable object: the generator adds the class to it, and
  the import resolvers, which are handed the file, add import declarations to it.
\<close>

record TypescriptFile =
  filename :: string
  statements :: "Statement list"

definition addStatement :: "TypescriptFile \<Rightarrow> Statement \<Rightarrow> TypescriptFile" where
  "addStatement source statement = source\<lparr>statements := statements source @ [statement]\<rparr>"

subsection \<open>Field metadata\<close>

text \<open>
  \<^verbatim>\<open>rt.FieldInfo\<close> is a union discriminated by the string \<^verbatim>\<open>kind\<close>. The four kinds
  the type declares carry their own properties (\<^verbatim>\<open>T\<close> and \<^verbatim>\<open>L\<close> of a scalar, \<^verbatim>\<open>K\<close>
  and \<^verbatim>\<open>V\<close> of a map). \<^verbatim>\<open>Kind_other k\<close> is a field whose \<^verbatim>\<open>kind\<close> is a string
  \<^verbatim>\<open>k\<close> that none of the case labels of the switch matches, and \<^verbatim>\<open>V_other\<close> is the same
  for the value of a map. Of the enum information returned by \<^verbatim>\<open>T()\<close> the generator
  reads the first component, the type name; of the message type returned by \<^verbatim>\<open>T()\<close> it
  reads \<^verbatim>\<open>typeName\<close>.
\<close>

datatype EnumInfo = EnumInfo string

datatype MapValue =
    V_scalar ScalarType "LongType option"
  | V_enum EnumInfo
  | V_message string
  | V_other string

datatype FieldKind =
    Kind_scalar ScalarType "LongType option"
  | Kind_enum EnumInfo
  | Kind_message string
  | Kind_map ScalarType MapValue
  | Kind_other string

record FieldInfo =
  no :: int
  localName :: string
  kind :: FieldKind
  repeat :: RepeatType
  opt :: bool
  oneof :: "string option"

record MessageType =
  mt_typeName :: string
  mt_fields :: "FieldInfo list"

subsection \<open>The generator, its collaborators and the schema descriptors\<close>

text \<open>
  The object \<^verbatim>\<open>this\<close>: the two options, and the collaborators as functions. The
  interpreter is asked for a message type by type name or by descriptor; the descriptor
  stands for its type name. \<^verbatim>\<open>imports.typeByName\<close> and \<^verbatim>\<open>imports.type\<close> are handed
  the file and a type; they return the local name under which the file refers to the type,
  and they may change the statements of the file on the way (an import is added). A
  resolver is therefore a function from the file to the name and the statements it leaves
  in the file. The comment generator attaches comments to a node it is given and returns
  nothing, and the symbol table is written by \<^verbatim>\<open>registerSymbols\<close> only; neither is part
  of the model.
\<close>

record Generator =
  oneofKindDiscriminator :: string
  normalLongType :: LongType
  getMessageType :: "string \<Rightarrow> MessageType"
  imports_typeByName :: "TypescriptFile \<Rightarrow> string \<Rightarrow> string \<times> Statement list"
  imports_type :: "TypescriptFile \<Rightarrow> string \<Rightarrow> string \<Rightarrow> string \<times> Statement list"

text \<open>
  The descriptors of \<^verbatim>\<open>@bufbuild/protobuf\<close> form a cyclic object graph: a field knows
  its oneof, a oneof its parent message and its member fields, a message its fields. The
  datatype is the finite unfolding of that graph. Through \<^verbatim>\<open>descOneof.parent\<close> and
  \<^verbatim>\<open>descOneof.fields\<close> the generator reads \<^verbatim>\<open>number\<close>, \<^verbatim>\<open>toString()\<close> and
  \<^verbatim>\<open>typeName\<close> only, so the unfolding may stop below them.
\<close>

datatype DescField =
    DescField (number: int) (toString: string) (field_oneof: "DescOneof option")
and DescOneof =
    DescOneof (parent: DescMessage) (oneof_fields: "DescField list")
and DescMessage =
    DescMessage (typeName: string) (fields: "DescField list")

text \<open>
  Modelled from the spec: \<^verbatim>\<open>assert\<close> of the runtime package throws an \<^verbatim>\<open>Error\<close>
  without a message when its condition is falsy (a fatal contract violation). An
  \<^verbatim>\<open>Error\<close> carries its message, if any; \<^verbatim>\<open>TypeError\<close> is the engine's error for a
  property read on \<^verbatim>\<open>undefined\<close>.
\<close>

datatype error = Error "string option" | TypeError

text \<open>
  A function that is handed the file returns its result, or the error it throws, together
  with the file as it leaves it: what a resolver has done to the file stays done when a
  later step throws. The two calls of the resolvers:
\<close>

definition typeByName :: "Generator \<Rightarrow> TypescriptFile \<Rightarrow> string \<Rightarrow> string \<times> TypescriptFile" where
  "typeByName gen source name =
    (case imports_typeByName gen source name of
       (localName', statements') \<Rightarrow> (localName', source\<lparr>statements := statements'\<rparr>))"

definition typeOf ::
  "Generator \<Rightarrow> TypescriptFile \<Rightarrow> string \<Rightarrow> string \<Rightarrow> string \<times> TypescriptFile" where
  "typeOf gen source name kindTag =
    (case imports_type gen source name kindTag of
       (localName', statements') \<Rightarrow> (localName', source\<lparr>statements := statements'\<rparr>))"

subsection \<open>Scalar, enum and message types\<close>

text \<open>
  The switch compares \<^verbatim>\<open>scalarType\<close> with its case labels in order; a value that
  matches none leaves the function without a \<^verbatim>\<open>return\<close>, which is \<^verbatim>\<open>undefined\<close>
  (\<open>None\<close>). The inner switch does the same for \<^verbatim>\<open>longType ?? rt.LongType.STRING\<close>.
\<close>

definition createScalarTypeNode :: "ScalarType \<Rightarrow> LongType option \<Rightarrow> TypeNode option" where
  "createScalarTypeNode scalarType longType =
    (if scalarType = BOOL then Some (KeywordTypeNode BooleanKeyword)
     else if scalarType = STRING then Some (KeywordTypeNode StringKeyword)
     else if scalarType = BYTES then Some (TypeReferenceNode ''Uint8Array'')
     else if scalarType \<in> set [DOUBLE, FLOAT, INT32, FIXED32, UINT32, SFIXED32, SINT32]
       then Some (KeywordTypeNode NumberKeyword)
     else if scalarType \<in> set [SFIXED64, INT64, UINT64, FIXED64, SINT64]
       then (let l = (case longType of None \<Rightarrow> LongType_STRING | Some l' \<Rightarrow> l')
             in if l = LongType_STRING then Some (KeywordTypeNode StringKeyword)
                else if l = LongType_NUMBER then Some (KeywordTypeNode NumberKeyword)
                else if l = LongType_BIGINT then Some (KeywordTypeNode BigIntKeyword)
                else None)
     else None)"

definition createMessageTypeNode ::
  "Generator \<Rightarrow> TypescriptFile \<Rightarrow> string \<Rightarrow> TypeNode \<times> TypescriptFile" where
  "createMessageTypeNode gen source type_typeName =
    (case typeByName gen source type_typeName of
       (name, source') \<Rightarrow> (TypeReferenceNode name, source'))"

definition createEnumTypeNode ::
  "Generator \<Rightarrow> TypescriptFile \<Rightarrow> EnumInfo \<Rightarrow> TypeNode \<times> TypescriptFile" where
  "createEnumTypeNode gen source ei =
    (case ei of EnumInfo enumTypeName \<Rightarrow>
       (case typeByName gen source enumTypeName of
          (name, source') \<Rightarrow> (TypeReferenceNode name, source')))"

subsection \<open>The type of a field\<close>

text \<open>
  The value type of a map starts as \<^verbatim>\<open>undefined\<close> and the inner switch has no default
  branch. The outer switch has one, which throws. The enum and the message branches call
  the resolver, which may change the file.
\<close>

definition createTypeNode ::
  "Generator \<Rightarrow> TypescriptFile \<Rightarrow> DescField \<Rightarrow> FieldInfo
    \<Rightarrow> (error + TypeNode option) \<times> TypescriptFile" where
  "createTypeNode gen source descField fieldInfo =
    (case
       (case kind fieldInfo of
          Kind_scalar T L \<Rightarrow> (Inr (createScalarTypeNode T L), source)
        | Kind_enum T \<Rightarrow>
            (case createEnumTypeNode gen source T of
               (type, source') \<Rightarrow> (Inr (Some type), source'))
        | Kind_message T \<Rightarrow>
            (case createMessageTypeNode gen source T of
               (type, source') \<Rightarrow> (Inr (Some type), source'))
        | Kind_map K V \<Rightarrow>
            (let keyType =
                   (if K = BOOL then Some (KeywordTypeNode StringKeyword)
                    else createScalarTypeNode K (Some LongType_STRING))
             in case
                  (case V of
                     V_scalar T L \<Rightarrow> (createScalarTypeNode T L, source)
                   | V_enum T \<Rightarrow>
                       (case createEnumTypeNode gen source T of
                          (type, source') \<Rightarrow> (Some type, source'))
                   | V_message T \<Rightarrow>
                       (case createMessageTypeNode gen source T of
                          (type, source') \<Rightarrow> (Some type, source'))
                   | V_other k \<Rightarrow> (None, source))
                of
                  (valueType, source') \<Rightarrow>
                    (Inr (Some (TypeLiteralNode
                       [IndexSignature [Parameter [] ''key'' None keyType] valueType])),
                     source'))
        | Kind_other k \<Rightarrow>
            (Inl (Error (Some (''unknown kind '' @ toString descField))), source))
     of
       (Inl e, source') \<Rightarrow> (Inl e, source')
     | (Inr type, source') \<Rightarrow>
         (Inr (if repeat fieldInfo \<noteq> NO then Some (ArrayTypeNode type) else type), source'))"

subsection \<open>Oneof groups\<close>

text \<open>
  \<^verbatim>\<open>Array.prototype.find\<close> returns the first match or \<^verbatim>\<open>undefined\<close>, as
  \<^const>\<open>find\<close> does. \<^verbatim>\<open>descOneof.fields[0]\<close> of an empty array is \<^verbatim>\<open>undefined\<close>,
  and reading its \<^verbatim>\<open>number\<close> throws; the read is in the callback of \<^verbatim>\<open>find\<close>, which
  runs when the metadata has a field, and with no field the assertion that follows fails.
  The function is not handed the file.
\<close>

definition oneofInfo ::
  "Generator \<Rightarrow> DescOneof \<Rightarrow> error + (DescMessage \<times> MessageType \<times> string)" where
  "oneofInfo gen descOneof =
    (let parent' = parent descOneof;
         interpreterType = getMessageType gen (typeName parent')
     in case oneof_fields descOneof of
          [] \<Rightarrow> if mt_fields interpreterType = [] then Inl (Error None) else Inl TypeError
        | sampleField # _ \<Rightarrow>
            (case find (\<lambda>fi. no fi = number sampleField) (mt_fields interpreterType) of
               None \<Rightarrow> Inl (Error None)
             | Some sampleFieldInfo \<Rightarrow>
                 (case oneof sampleFieldInfo of
                    None \<Rightarrow> Inl (Error None)
                  | Some oneofName \<Rightarrow> Inr (parent', interpreterType, oneofName))))"

text \<open>The body of the loop over the members: the type literal of one selection case.\<close>

definition oneofCase ::
  "Generator \<Rightarrow> TypescriptFile \<Rightarrow> DescMessage \<Rightarrow> FieldInfo
    \<Rightarrow> (error + TypeNode) \<times> TypescriptFile" where
  "oneofCase gen source parentMessageDesc fieldInfo =
    (let kindProperty =
           PropertySignature (oneofKindDiscriminator gen) None
             (Some (LiteralTypeNode (StringLiteral (localName fieldInfo))))
     in case find (\<lambda>fd. number fd = no fieldInfo) (fields parentMessageDesc) of
          None \<Rightarrow> (Inl (Error None), source)
        | Some descField \<Rightarrow>
            (case createTypeNode gen source descField fieldInfo of
               (Inl e, source') \<Rightarrow> (Inl e, source')
             | (Inr typeNode, source') \<Rightarrow>
                 (let valueProperty =
                        PropertySignature (localName fieldInfo)
                          (if opt fieldInfo then Some QuestionToken else None) typeNode
                  in (Inr (TypeLiteralNode [kindProperty, valueProperty]), source'))))"

fun oneofCases_loop ::
  "Generator \<Rightarrow> TypescriptFile \<Rightarrow> DescMessage \<Rightarrow> FieldInfo list \<Rightarrow> TypeNode list
    \<Rightarrow> (error + TypeNode list) \<times> TypescriptFile" where
  "oneofCases_loop gen source parentMessageDesc [] oneofCases = (Inr oneofCases, source)"
| "oneofCases_loop gen source parentMessageDesc (fieldInfo # rest) oneofCases =
    (case oneofCase gen source parentMessageDesc fieldInfo of
       (Inl e, source') \<Rightarrow> (Inl e, source')
     | (Inr c, source') \<Rightarrow>
         oneofCases_loop gen source' parentMessageDesc rest (oneofCases @ [c]))"

definition createOneofADTTypeNode ::
  "Generator \<Rightarrow> TypescriptFile \<Rightarrow> DescOneof \<Rightarrow> (error + TypeNode) \<times> TypescriptFile" where
  "createOneofADTTypeNode gen source descOneof =
    (case oneofInfo gen descOneof of
       Inl e \<Rightarrow> (Inl e, source)
     | Inr (parentMessageDesc, interpreterType, oneofLocalName) \<Rightarrow>
         (let memberFieldInfos =
                filter (\<lambda>fi. oneof fi = Some oneofLocalName) (mt_fields interpreterType)
          in case oneofCases_loop gen source parentMessageDesc memberFieldInfos [] of
               (Inl e, source') \<Rightarrow> (Inl e, source')
             | (Inr oneofCases, source') \<Rightarrow>
                 (Inr (UnionTypeNode
                        (oneofCases @
                         [TypeLiteralNode
                           [PropertySignature (oneofKindDiscriminator gen) None
                             (Some (KeywordTypeNode UndefinedKeyword))]])),
                  source')))"

subsection \<open>The class\<close>

text \<open>
  The condition \<^verbatim>\<open>fieldInfo.oneof && descField.oneof\<close>: both are there, and the group
  name of the metadata is not the empty string, which is falsy.
\<close>

definition oneofOfBoth :: "FieldInfo \<Rightarrow> DescField \<Rightarrow> (string \<times> DescOneof) option" where
  "oneofOfBoth fieldInfo descField =
    (case oneof fieldInfo of
       None \<Rightarrow> None
     | Some fieldInfo_oneof \<Rightarrow>
         if fieldInfo_oneof = [] then None
         else (case field_oneof descField of
                 None \<Rightarrow> None
               | Some descField_oneof \<Rightarrow> Some (fieldInfo_oneof, descField_oneof)))"

text \<open>
  One turn of the loop over \<^verbatim>\<open>interpreterType.fields\<close>, on the two arrays the loop
  appends to, \<^verbatim>\<open>processedOneofs\<close> and \<^verbatim>\<open>ctorParams\<close>, and on the file.
\<close>

definition generateMessageClass_body ::
  "Generator \<Rightarrow> TypescriptFile \<Rightarrow> DescMessage \<Rightarrow> FieldInfo
    \<Rightarrow> string list \<times> ParameterDeclaration list
    \<Rightarrow> (error + (string list \<times> ParameterDeclaration list)) \<times> TypescriptFile" where
  "generateMessageClass_body gen source descMessage fieldInfo st =
    (case st of (processedOneofs, ctorParams) \<Rightarrow>
      (case find (\<lambda>descField. number descField = no fieldInfo) (fields descMessage) of
         None \<Rightarrow> (Inl (Error None), source)
       | Some descField \<Rightarrow>
           (case oneofOfBoth fieldInfo descField of
              Some (fieldInfo_oneof, descField_oneof) \<Rightarrow>
                if fieldInfo_oneof \<in> set processedOneofs
                then (Inr (processedOneofs, ctorParams), source)
                else
                  (case oneofInfo gen descField_oneof of
                     Inl e \<Rightarrow> (Inl e, source)
                   | Inr (_, _, oneofLocalName) \<Rightarrow>
                       (case createOneofADTTypeNode gen source descField_oneof of
                          (Inl e, source') \<Rightarrow> (Inl e, source')
                        | (Inr oneofType, source') \<Rightarrow>
                            (Inr (processedOneofs @ [fieldInfo_oneof],
                                  ctorParams @
                                  [Parameter [PublicKeyword, ReadonlyKeyword] oneofLocalName
                                     None (Some oneofType)]),
                             source')))
            | None \<Rightarrow>
                (case createTypeNode gen source descField fieldInfo of
                   (Inl e, source') \<Rightarrow> (Inl e, source')
                 | (Inr type, source') \<Rightarrow>
                     (Inr (processedOneofs,
                           ctorParams @
                           [Parameter [PublicKeyword, ReadonlyKeyword] (localName fieldInfo)
                              (if opt fieldInfo then Some QuestionToken else None) type]),
                      source')))))"

fun generateMessageClass_loop ::
  "Generator \<Rightarrow> TypescriptFile \<Rightarrow> DescMessage \<Rightarrow> FieldInfo list
    \<Rightarrow> string list \<times> ParameterDeclaration list
    \<Rightarrow> (error + (string list \<times> ParameterDeclaration list)) \<times> TypescriptFile" where
  "generateMessageClass_loop gen source descMessage [] st = (Inr st, source)"
| "generateMessageClass_loop gen source descMessage (fieldInfo # rest) st =
    (case generateMessageClass_body gen source descMessage fieldInfo st of
       (Inl e, source') \<Rightarrow> (Inl e, source')
     | (Inr st', source') \<Rightarrow> generateMessageClass_loop gen source' descMessage rest st')"

text \<open>
  The result is the class declaration, or the error, together with the file. After the
  loop the name of the class is resolved through \<^verbatim>\<open>imports.type\<close> and the declaration is
  added to the file.
\<close>

definition generateMessageClass ::
  "Generator \<Rightarrow> TypescriptFile \<Rightarrow> DescMessage \<Rightarrow> (error + Statement) \<times> TypescriptFile" where
  "generateMessageClass gen source descMessage =
    (let interpreterType = getMessageType gen (typeName descMessage)
     in case generateMessageClass_loop gen source descMessage (mt_fields interpreterType)
               ([], []) of
          (Inl e, source') \<Rightarrow> (Inl e, source')
        | (Inr (processedOneofs, ctorParams), source') \<Rightarrow>
            (let members = [Constructor ctorParams (Block [] True)]
             in case typeOf gen source' (typeName descMessage) ''message-class'' of
                  (name, source'') \<Rightarrow>
                    (let statement = ClassDeclaration [ExportKeyword] name members
                     in (Inr statement, addStatement source'' statement))))"

text \<open>
  The test that sends a field into the oneof branch of the loop, as a predicate of the
  group name: the descriptor has a field of that number, and \<^verbatim>\<open>fieldInfo.oneof\<close>, which
  is the name \<open>g\<close>, and \<^verbatim>\<open>descField.oneof\<close> are both there.
\<close>

definition inOneof :: "DescMessage \<Rightarrow> string \<Rightarrow> FieldInfo \<Rightarrow> bool" where
  "inOneof descMessage g fieldInfo =
    (case find (\<lambda>descField. number descField = no fieldInfo) (fields descMessage) of
       None \<Rightarrow> False
     | Some descField \<Rightarrow>
         (case oneofOfBoth fieldInfo descField of
            None \<Rightarrow> False
          | Some (fieldInfo_oneof, descField_oneof) \<Rightarrow> fieldInfo_oneof = g))"

subsection \<open>The long type the interpreter writes\<close>

text \<open>
  Modelled from the spec: the interpreter (\<^verbatim>\<open>packages/plugin/src/interpreter.ts\<close>), which
  produces the field metadata the generator reads, is not part of the source at hand. For
  a 64 bit integer field it decides the long representation: the one the field itself
  asks for when it overrides the configuration, the configured default otherwise. It
  writes that representation to \<^verbatim>\<open>fieldInfo.L\<close>; a field whose representation is STRING
  may also come without \<^verbatim>\<open>L\<close>, which the resolver reads as STRING. The configured
  default is the option \<^verbatim>\<open>normalLongType\<close>, which the interpreter and the generator are
  both given.
\<close>

definition interpreter_longType :: "LongType \<Rightarrow> LongType option \<Rightarrow> LongType" where
  "interpreter_longType defaultLongRepresentation override =
    (case override of None \<Rightarrow> defaultLongRepresentation | Some l \<Rightarrow> l)"

definition interpreter_L :: "LongType \<Rightarrow> LongType option \<Rightarrow> LongType option \<Rightarrow> bool" where
  "interpreter_L defaultLongRepresentation override L =
    (L = Some (interpreter_longType defaultLongRepresentation override)
     \<or> (L = None \<and> interpreter_longType defaultLongRepresentation override = LongType_STRING))"

subsection \<open>A worked example: the message Shape\<close>

text \<open>
  The message \<^verbatim>\<open>Shape\<close> has the fields \<^verbatim>\<open>width\<close> (int32, number 1) and
  \<^verbatim>\<open>area\<close> (uint64, number 2) and the oneof \<^verbatim>\<open>selector\<close> with the members
  \<^verbatim>\<open>label\<close> (string, number 3) and \<^verbatim>\<open>anchor\<close> (message \<^verbatim>\<open>Point\<close>, number 4).
  The generator of the example is given the configured long type as an argument. Its
  resolver of type names adds an import of the type to the file unless the file has it.
\<close>

definition shape_parent :: DescMessage where
  "shape_parent = DescMessage ''Shape''
     [DescField 1 ''field Shape.width'' None, DescField 2 ''field Shape.area'' None,
      DescField 3 ''field Shape.label'' None, DescField 4 ''field Shape.anchor'' None]"

definition selector_oneof :: DescOneof where
  "selector_oneof = DescOneof shape_parent
     [DescField 3 ''field Shape.label'' None, DescField 4 ''field Shape.anchor'' None]"

definition shape_desc :: DescMessage where
  "shape_desc = DescMessage ''Shape''
     [DescField 1 ''field Shape.width'' None, DescField 2 ''field Shape.area'' None,
      DescField 3 ''field Shape.label'' (Some selector_oneof),
      DescField 4 ''field Shape.anchor'' (Some selector_oneof)]"

definition width_field :: FieldInfo where
  "width_field = \<lparr>no = 1, localName = ''width'', kind = Kind_scalar INT32 None,
     repeat = NO, opt = False, oneof = None\<rparr>"

definition area_field :: FieldInfo where
  "area_field = \<lparr>no = 2, localName = ''area'', kind = Kind_scalar UINT64 None,
     repeat = NO, opt = False, oneof = None\<rparr>"

definition label_field :: FieldInfo where
  "label_field = \<lparr>no = 3, localName = ''label'', kind = Kind_scalar STRING None,
     repeat = NO, opt = False, oneof = Some ''selector''\<rparr>"

definition anchor_field :: FieldInfo where
  "anchor_field = \<lparr>no = 4, localName = ''anchor'', kind = Kind_message ''Point'',
     repeat = NO, opt = False, oneof = Some ''selector''\<rparr>"

definition shape_type :: MessageType where
  "shape_type = \<lparr>mt_typeName = ''Shape'',
     mt_fields = [width_field, area_field, label_field, anchor_field]\<rparr>"

definition shape_gen :: "LongType \<Rightarrow> Generator" where
  "shape_gen l = \<lparr>oneofKindDiscriminator = ''kind'', normalLongType = l,
     getMessageType = (\<lambda>n. shape_type),
     imports_typeByName = (\<lambda>source n.
       (n, if ImportDeclaration n \<in> set (statements source) then statements source
           else ImportDeclaration n # statements source)),
     imports_type = (\<lambda>source n k. (n @ ''Ctor'', statements source))\<rparr>"

definition shape_file :: TypescriptFile where
  "shape_file = \<lparr>filename = ''shape.ts'', statements = []\<rparr>"

text \<open>The file once the type \<^verbatim>\<open>Point\<close> has been resolved in it.\<close>

definition shape_file_imported :: TypescriptFile where
  "shape_file_imported = \<lparr>filename = ''shape.ts'', statements = [ImportDeclaration ''Point'']\<rparr>"

text \<open>A map field from a 64 bit key to a value of a kind the generator does not know.\<close>

definition index_field :: "ScalarType \<Rightarrow> MapValue \<Rightarrow> FieldInfo" where
  "index_field K V = \<lparr>no = 5, localName = ''index'', kind = Kind_map K V,
     repeat = NO, opt = False, oneof = None\<rparr>"

text \<open>The union of the oneof \<^verbatim>\<open>selector\<close>, the parameters and the class of \<^verbatim>\<open>Shape\<close>.\<close>

definition selector_union :: TypeNode where
  "selector_union = UnionTypeNode
     [TypeLiteralNode
        [PropertySignature ''kind'' None (Some (LiteralTypeNode (StringLiteral ''label''))),
         PropertySignature ''label'' None (Some (KeywordTypeNode StringKeyword))],
      TypeLiteralNode
        [PropertySignature ''kind'' None (Some (LiteralTypeNode (StringLiteral ''anchor''))),
         PropertySignature ''anchor'' None (Some (TypeReferenceNode ''Point''))],
      TypeLiteralNode
        [PropertySignature ''kind'' None (Some (KeywordTypeNode UndefinedKeyword))]]"

definition shape_params :: "ParameterDeclaration list" where
  "shape_params =
     [Parameter [PublicKeyword, ReadonlyKeyword] ''width'' None
        (Some (KeywordTypeNode NumberKeyword)),
      Parameter [PublicKeyword, ReadonlyKeyword] ''area'' None
        (Some (KeywordTypeNode StringKeyword)),
      Parameter [PublicKeyword, ReadonlyKeyword] ''selector'' None (Some selector_union)]"

definition shape_class :: Statement where
  "shape_class = ClassDeclaration [ExportKeyword] ''ShapeCtor''
     [Constructor shape_params (Block [] True)]"

text \<open>
  A field whose number the descriptor of \<^verbatim>\<open>Shape\<close> does not have, and the generator of
  the example with the field metadata replaced.
\<close>

definition stray_field :: FieldInfo where
  "stray_field = \<lparr>no = 9, localName = ''stray'', kind = Kind_scalar BOOL None,
     repeat = NO, opt = False, oneof = None\<rparr>"

definition with_fields :: "FieldInfo list \<Rightarrow> Generator" where
  "with_fields fis = (shape_gen LongType_STRING)
     \<lparr>getMessageType := (\<lambda>n. \<lparr>mt_typeName = ''Shape'', mt_fields = fis\<rparr>)\<rparr>"

section \<open>Properties\<close>

subsection \<open>Scalar types\<close>

lemma createScalarTypeNode_narrow:
  assumes "scalarType \<notin> set [SFIXED64, INT64, UINT64, FIXED64, SINT64]"
  shows "createScalarTypeNode scalarType longType =
    Some (if scalarType = BOOL then KeywordTypeNode BooleanKeyword
          else if scalarType = STRING then KeywordTypeNode StringKeyword
          else if scalarType = BYTES then TypeReferenceNode ''Uint8Array''
          else KeywordTypeNode NumberKeyword)"
  using assms by (cases scalarType) (simp_all add: createScalarTypeNode_def)

lemma createScalarTypeNode_long:
  assumes "scalarType \<in> set [SFIXED64, INT64, UINT64, FIXED64, SINT64]"
  shows "createScalarTypeNode scalarType longType =
    Some (KeywordTypeNode
      (case longType of
         None \<Rightarrow> StringKeyword
       | Some LongType_STRING \<Rightarrow> StringKeyword
       | Some LongType_NUMBER \<Rightarrow> NumberKeyword
       | Some LongType_BIGINT \<Rightarrow> BigIntKeyword))"
  using assms
  by (cases longType) (auto simp add: createScalarTypeNode_def split: LongType.splits)

text \<open>The type of a field does not depend on the option \<^verbatim>\<open>normalLongType\<close>.\<close>

lemma typeByName_normalLongType:
  "typeByName (gen\<lparr>normalLongType := l\<rparr>) = typeByName gen"
  by (intro ext) (simp add: typeByName_def)

lemma createTypeNode_normalLongType:
  "createTypeNode (gen\<lparr>normalLongType := l\<rparr>) = createTypeNode gen"
  unfolding createTypeNode_def createEnumTypeNode_def createMessageTypeNode_def
    typeByName_normalLongType ..

text \<open>
  C1. For a scalar field of a 64 bit integer kind the resolved type is chosen by a
  three-way switch on the long representation: \<^verbatim>\<open>string\<close> for STRING, \<^verbatim>\<open>number\<close> for
  NUMBER, \<^verbatim>\<open>bigint\<close> for BIGINT. With the metadata as the interpreter writes it, the
  representation is the one the field itself asks for when it overrides the
  configuration, and the configured \<^verbatim>\<open>normalLongType\<close> when it does not. The file is not
  touched.
\<close>

theorem long_type_policy:
  assumes "kind fieldInfo = Kind_scalar T L"
    and "T \<in> set [SFIXED64, INT64, UINT64, FIXED64, SINT64]"
    and "interpreter_L (normalLongType gen) override L"
  shows "createTypeNode gen source descField fieldInfo =
    (Inr (let type = Some (KeywordTypeNode
                (case (case override of None \<Rightarrow> normalLongType gen | Some l \<Rightarrow> l) of
                   LongType_STRING \<Rightarrow> StringKeyword
                 | LongType_NUMBER \<Rightarrow> NumberKeyword
                 | LongType_BIGINT \<Rightarrow> BigIntKeyword))
          in if repeat fieldInfo \<noteq> NO then Some (ArrayTypeNode type) else type),
     source)"
proof -
  let ?policy = "case override of None \<Rightarrow> normalLongType gen | Some l \<Rightarrow> l"
  have "createScalarTypeNode T L =
      Some (KeywordTypeNode
        (case ?policy of
           LongType_STRING \<Rightarrow> StringKeyword
         | LongType_NUMBER \<Rightarrow> NumberKeyword
         | LongType_BIGINT \<Rightarrow> BigIntKeyword))"
    using assms(3) createScalarTypeNode_long [OF assms(2), of L]
    by (auto simp add: interpreter_L_def interpreter_longType_def split: LongType.splits)
  then show ?thesis using assms(1) by (simp add: createTypeNode_def)
qed

text \<open>
  The field \<^verbatim>\<open>area\<close>: configured NUMBER and no override; configured NUMBER and the
  override BIGINT; configured STRING, no override and no \<^verbatim>\<open>L\<close> in the metadata.
\<close>

theorem long_type_policy_witness:
  "createTypeNode (shape_gen LongType_NUMBER) shape_file (DescField 2 ''field Shape.area'' None)
        (area_field\<lparr>kind := Kind_scalar UINT64 (Some LongType_NUMBER)\<rparr>)
      = (Inr (Some (KeywordTypeNode NumberKeyword)), shape_file)
   \<and> createTypeNode (shape_gen LongType_NUMBER) shape_file (DescField 2 ''field Shape.area'' None)
        (area_field\<lparr>kind := Kind_scalar UINT64 (Some LongType_BIGINT)\<rparr>)
      = (Inr (Some (KeywordTypeNode BigIntKeyword)), shape_file)
   \<and> createTypeNode (shape_gen LongType_STRING) shape_file (DescField 2 ''field Shape.area'' None)
        area_field
      = (Inr (Some (KeywordTypeNode StringKeyword)), shape_file)"
proof -
  have m: "UINT64 \<in> set [SFIXED64, INT64, UINT64, FIXED64, SINT64]" by simp
  have 1: "interpreter_L (normalLongType (shape_gen LongType_NUMBER)) None
      (Some LongType_NUMBER)"
    by (simp add: interpreter_L_def interpreter_longType_def shape_gen_def)
  have 2: "interpreter_L (normalLongType (shape_gen LongType_NUMBER)) (Some LongType_BIGINT)
      (Some LongType_BIGINT)"
    by (simp add: interpreter_L_def interpreter_longType_def shape_gen_def)
  have 3: "interpreter_L (normalLongType (shape_gen LongType_STRING)) None None"
    by (simp add: interpreter_L_def interpreter_longType_def shape_gen_def)
  have k: "kind (area_field\<lparr>kind := Kind_scalar UINT64 x\<rparr>) = Kind_scalar UINT64 x" for x
    by simp
  have k0: "kind area_field = Kind_scalar UINT64 None" by (simp add: area_field_def)
  show ?thesis
    using long_type_policy [OF k m 1, of shape_file "DescField 2 ''field Shape.area'' None"]
      long_type_policy [OF k m 2, of shape_file "DescField 2 ''field Shape.area'' None"]
      long_type_policy [OF k0 m 3, of shape_file "DescField 2 ''field Shape.area'' None"]
    by (simp add: area_field_def shape_gen_def)
qed

text \<open>
  C8. For a scalar field of any kind but the 64 bit integers, the resolved type is a fixed
  entry of the table (\<^verbatim>\<open>boolean\<close>, \<^verbatim>\<open>string\<close>, \<^verbatim>\<open>Uint8Array\<close>, \<^verbatim>\<open>number\<close>), and
  two runs that differ in the long type only, the configured one and the one the field
  carries, resolve the same type.
\<close>

theorem narrow_scalar_type_fixed:
  assumes "kind fieldInfo = Kind_scalar T L"
    and "fieldInfo' = fieldInfo\<lparr>kind := Kind_scalar T L'\<rparr>"
    and "T \<notin> set [SFIXED64, INT64, UINT64, FIXED64, SINT64]"
  shows "createTypeNode gen source descField fieldInfo =
      (Inr (let type = Some (if T = BOOL then KeywordTypeNode BooleanKeyword
                             else if T = STRING then KeywordTypeNode StringKeyword
                             else if T = BYTES then TypeReferenceNode ''Uint8Array''
                             else KeywordTypeNode NumberKeyword)
            in if repeat fieldInfo \<noteq> NO then Some (ArrayTypeNode type) else type),
       source)
    \<and> createScalarTypeNode T L' = createScalarTypeNode T L
    \<and> createTypeNode (gen\<lparr>normalLongType := l\<rparr>) source descField fieldInfo' =
      createTypeNode gen source descField fieldInfo"
proof -
  have a: "createScalarTypeNode T L =
      Some (if T = BOOL then KeywordTypeNode BooleanKeyword
            else if T = STRING then KeywordTypeNode StringKeyword
            else if T = BYTES then TypeReferenceNode ''Uint8Array''
            else KeywordTypeNode NumberKeyword)"
    using assms(3) by (rule createScalarTypeNode_narrow)
  have b: "createScalarTypeNode T L' = createScalarTypeNode T L"
    unfolding a using assms(3) by (rule createScalarTypeNode_narrow)
  have c: "createTypeNode gen source descField fieldInfo =
      (Inr (let type = Some (if T = BOOL then KeywordTypeNode BooleanKeyword
                             else if T = STRING then KeywordTypeNode StringKeyword
                             else if T = BYTES then TypeReferenceNode ''Uint8Array''
                             else KeywordTypeNode NumberKeyword)
            in if repeat fieldInfo \<noteq> NO then Some (ArrayTypeNode type) else type),
       source)"
    using assms(1) by (simp add: createTypeNode_def a)
  have d: "createTypeNode gen source descField fieldInfo' =
      createTypeNode gen source descField fieldInfo"
    using assms(1,2) by (simp add: createTypeNode_def b)
  show ?thesis
    using b c d by (simp only: createTypeNode_normalLongType simp_thms)
qed

text \<open>The field \<^verbatim>\<open>width\<close>, under STRING and nothing of its own, then NUMBER and BIGINT.\<close>

theorem narrow_scalar_type_fixed_witness:
  "kind width_field = Kind_scalar INT32 None
   \<and> INT32 \<notin> set [SFIXED64, INT64, UINT64, FIXED64, SINT64]
   \<and> createTypeNode (shape_gen LongType_STRING) shape_file
        (DescField 1 ''field Shape.width'' None) width_field
      = (Inr (Some (KeywordTypeNode NumberKeyword)), shape_file)
   \<and> createTypeNode (shape_gen LongType_NUMBER) shape_file
        (DescField 1 ''field Shape.width'' None)
        (width_field\<lparr>kind := Kind_scalar INT32 (Some LongType_BIGINT)\<rparr>)
      = (Inr (Some (KeywordTypeNode NumberKeyword)), shape_file)"
  using narrow_scalar_type_fixed [of width_field INT32 None
      "width_field\<lparr>kind := Kind_scalar INT32 (Some LongType_BIGINT)\<rparr>"
      "Some LongType_BIGINT" "shape_gen LongType_STRING" shape_file
      "DescField 1 ''field Shape.width'' None" LongType_NUMBER]
  by (simp add: width_field_def shape_gen_def)

text \<open>
  C9. The translation of scalars is total: for every member of the scalar enumeration and
  every long type, given or absent, \<^verbatim>\<open>createScalarTypeNode\<close> returns a type node; no
  member falls through the switch to \<^verbatim>\<open>undefined\<close>.
\<close>

theorem createScalarTypeNode_total:
  "\<exists>t. createScalarTypeNode scalarType longType = Some t"
proof (cases longType)
  case None
  then show ?thesis by (cases scalarType) (simp_all add: createScalarTypeNode_def)
next
  case (Some l)
  then show ?thesis
    by (cases scalarType; cases l) (simp_all add: createScalarTypeNode_def)
qed

subsection \<open>Map fields\<close>

text \<open>
  C4. The type of a map field is a type literal with one index signature whose parameter
  \<^verbatim>\<open>key\<close> is typed \<^verbatim>\<open>string\<close> for a boolean key, and for every other key kind by the
  scalar table under the long type STRING, so that a 64 bit integer key is typed
  \<^verbatim>\<open>string\<close>. The configured \<^verbatim>\<open>normalLongType\<close> has no part in it.
\<close>

theorem map_key_type:
  assumes "kind fieldInfo = Kind_map K V"
  shows "\<exists>keyType valueType source'.
      createTypeNode gen source descField fieldInfo =
        (Inr (let type = Some (TypeLiteralNode
                     [IndexSignature [Parameter [] ''key'' None keyType] valueType])
              in if repeat fieldInfo \<noteq> NO then Some (ArrayTypeNode type) else type),
         source')
    \<and> keyType = (if K = BOOL then Some (KeywordTypeNode StringKeyword)
                  else createScalarTypeNode K (Some LongType_STRING))
    \<and> (if K \<in> set [SFIXED64, INT64, UINT64, FIXED64, SINT64]
        then keyType = Some (KeywordTypeNode StringKeyword) else True)
    \<and> createTypeNode (gen\<lparr>normalLongType := l\<rparr>) source descField fieldInfo =
        createTypeNode gen source descField fieldInfo"
proof -
  let ?keyType = "if K = BOOL then Some (KeywordTypeNode StringKeyword)
                  else createScalarTypeNode K (Some LongType_STRING)"
  let ?valueOf = "case V of
                  V_scalar T L \<Rightarrow> (createScalarTypeNode T L, source)
                | V_enum T \<Rightarrow>
                    (case createEnumTypeNode gen source T of
                       (type, source') \<Rightarrow> (Some type, source'))
                | V_message T \<Rightarrow>
                    (case createMessageTypeNode gen source T of
                       (type, source') \<Rightarrow> (Some type, source'))
                | V_other k \<Rightarrow> (None, source)"
  have a: "createTypeNode gen source descField fieldInfo =
        (Inr (let type = Some (TypeLiteralNode
                     [IndexSignature [Parameter [] ''key'' None ?keyType] (fst ?valueOf)])
              in if repeat fieldInfo \<noteq> NO then Some (ArrayTypeNode type) else type),
         snd ?valueOf)"
    using assms by (simp add: createTypeNode_def Let_def split: prod.splits)
  have b: "if K \<in> set [SFIXED64, INT64, UINT64, FIXED64, SINT64]
        then ?keyType = Some (KeywordTypeNode StringKeyword) else True"
  proof (cases "K \<in> set [SFIXED64, INT64, UINT64, FIXED64, SINT64]")
    case True
    then have "K \<noteq> BOOL" by auto
    with True createScalarTypeNode_long [OF True, of "Some LongType_STRING"]
    show ?thesis by simp
  next
    case False
    then show ?thesis by simp
  qed
  have c: "createTypeNode (gen\<lparr>normalLongType := l\<rparr>) source descField fieldInfo =
        createTypeNode gen source descField fieldInfo"
    by (simp add: createTypeNode_normalLongType)
  show ?thesis
    by (intro exI [of _ ?keyType] exI [of _ "fst ?valueOf"] exI [of _ "snd ?valueOf"]
        conjI a b refl c)
qed

text \<open>A map from int64 to int32, the configuration being NUMBER: the key is \<^verbatim>\<open>string\<close>.\<close>

theorem map_key_type_witness:
  "kind (index_field INT64 (V_scalar INT32 None)) = Kind_map INT64 (V_scalar INT32 None)
   \<and> createTypeNode (shape_gen LongType_NUMBER) shape_file
        (DescField 5 ''field Shape.index'' None) (index_field INT64 (V_scalar INT32 None))
      = (Inr (Some (TypeLiteralNode
              [IndexSignature
                [Parameter [] ''key'' None (Some (KeywordTypeNode StringKeyword))]
                (Some (KeywordTypeNode NumberKeyword))])), shape_file)"
  using map_key_type [of "index_field INT64 (V_scalar INT32 None)" INT64
      "V_scalar INT32 None" "shape_gen LongType_NUMBER" shape_file
      "DescField 5 ''field Shape.index'' None" LongType_NUMBER]
  by (simp add: index_field_def createTypeNode_def createScalarTypeNode_def)

text \<open>
  C10. In a map field whose value is of a kind other than scalar, enum and message, the
  resolver does not throw: the inner switch has no default branch, and the index
  signature is built with no value type.
\<close>

theorem map_value_of_other_kind:
  assumes "kind fieldInfo = Kind_map K (V_other k)"
  shows "createTypeNode gen source descField fieldInfo =
      (Inr (let type = Some (TypeLiteralNode
                   [IndexSignature
                     [Parameter [] ''key'' None
                       (if K = BOOL then Some (KeywordTypeNode StringKeyword)
                        else createScalarTypeNode K (Some LongType_STRING))]
                     None])
            in if repeat fieldInfo \<noteq> NO then Some (ArrayTypeNode type) else type),
       source)
    \<and> \<not> isl (fst (createTypeNode gen source descField fieldInfo))
    \<and> isl (fst (createTypeNode gen source descField (fieldInfo\<lparr>kind := Kind_other k\<rparr>)))"
  using assms by (simp add: createTypeNode_def Let_def)

text \<open>A map whose value kind is the string \<^verbatim>\<open>group\<close>.\<close>

theorem map_value_of_other_kind_witness:
  "kind (index_field INT64 (V_other ''group'')) = Kind_map INT64 (V_other ''group'')
   \<and> createTypeNode (shape_gen LongType_STRING) shape_file
        (DescField 5 ''field Shape.index'' None) (index_field INT64 (V_other ''group''))
      = (Inr (Some (TypeLiteralNode
              [IndexSignature
                [Parameter [] ''key'' None (Some (KeywordTypeNode StringKeyword))] None])),
         shape_file)"
  using map_value_of_other_kind [of "index_field INT64 (V_other ''group'')" INT64
      "''group''" "shape_gen LongType_STRING" shape_file
      "DescField 5 ''field Shape.index'' None"]
  by (simp add: index_field_def createScalarTypeNode_def)

subsection \<open>The loops\<close>



lemma loop_append:
  "generateMessageClass_loop gen s dm (xs @ ys) st =
    (case generateMessageClass_loop gen s dm xs st of
       (Inl e, s') \<Rightarrow> (Inl e, s')
     | (Inr st', s') \<Rightarrow> generateMessageClass_loop gen s' dm ys st')"
  by (induction xs arbitrary: s st) (simp_all split: sum.splits prod.splits)





lemma loop_fails:
  assumes "generateMessageClass_loop gen s0 dm pre st0 = (Inr st, s)"
    and "generateMessageClass_body gen s dm fi st = (Inl e, s')"
  shows "generateMessageClass_loop gen s0 dm (pre @ fi # post) st0 = (Inl e, s')"
  using assms by (simp add: loop_append)

lemma generateMessageClass_fails:
  assumes "mt_fields (getMessageType gen (typeName dm)) = pre @ fi # post"
    and "generateMessageClass_loop gen s0 dm pre ([], []) = (Inr st, s)"
    and "generateMessageClass_body gen s dm fi st = (Inl e, s')"
  shows "generateMessageClass gen s0 dm = (Inl e, s')"
  using loop_fails [OF assms(2,3), of post] assms(1)
  by (simp add: generateMessageClass_def)

text \<open>
  What the generator returns depends on the file through the names the resolver returns
  only, and the generator keeps the name of the file.
\<close>

lemma same_file:
  fixes s source :: TypescriptFile
  assumes "filename s = filename source"
  shows "s = source\<lparr>statements := statements s\<rparr>"
  using assms by (cases s, cases source) simp

lemma typeByName_alt:
  "typeByName gen s n =
     (fst (imports_typeByName gen s n), s\<lparr>statements := snd (imports_typeByName gen s n)\<rparr>)"
  by (simp add: typeByName_def case_prod_beta)

lemma typeOf_alt:
  "typeOf gen s n k =
     (fst (imports_type gen s n k), s\<lparr>statements := snd (imports_type gen s n k)\<rparr>)"
  by (simp add: typeOf_def case_prod_beta)

lemma typeByName_same:
  assumes "\<forall>stmts n. fst (imports_typeByName gen (source\<lparr>statements := stmts\<rparr>) n) =
                     fst (imports_typeByName gen source n)"
    and "filename s = filename source"
  shows "fst (typeByName gen s n) = fst (imports_typeByName gen source n)"
    and "filename (snd (typeByName gen s n)) = filename source"
proof -
  from assms(1) have "fst (imports_typeByName gen (source\<lparr>statements := statements s\<rparr>) n) =
      fst (imports_typeByName gen source n)" by blast
  with same_file [OF assms(2)] have "fst (imports_typeByName gen s n) =
      fst (imports_typeByName gen source n)" by simp
  then show "fst (typeByName gen s n) = fst (imports_typeByName gen source n)"
    by (simp add: typeByName_alt)
  show "filename (snd (typeByName gen s n)) = filename source"
    using assms(2) by (simp add: typeByName_alt)
qed

lemma createMessageTypeNode_alt:
  "createMessageTypeNode gen s T =
     (TypeReferenceNode (fst (typeByName gen s T)), snd (typeByName gen s T))"
  by (simp add: createMessageTypeNode_def case_prod_beta)

lemma createEnumTypeNode_alt:
  "createEnumTypeNode gen s ei =
     (TypeReferenceNode (fst (typeByName gen s (case ei of EnumInfo n \<Rightarrow> n))),
      snd (typeByName gen s (case ei of EnumInfo n \<Rightarrow> n)))"
  by (cases ei) (simp add: createEnumTypeNode_def case_prod_beta)

lemma createTypeNode_same:
  assumes "\<forall>stmts n. fst (imports_typeByName gen (source\<lparr>statements := stmts\<rparr>) n) =
                     fst (imports_typeByName gen source n)"
    and "filename s = filename source"
  shows "fst (createTypeNode gen s df fi) = fst (createTypeNode gen source df fi)"
    and "filename (snd (createTypeNode gen s df fi)) = filename source"
proof -
  note t = typeByName_same [OF assms(1)]
  have src: "filename source = filename source" ..
  show "fst (createTypeNode gen s df fi) = fst (createTypeNode gen source df fi)"
    by (simp add: createTypeNode_def createMessageTypeNode_alt createEnumTypeNode_alt
          t(1) [OF assms(2)] t(1) [OF src] Let_def
        split: FieldKind.splits MapValue.splits)
  show "filename (snd (createTypeNode gen s df fi)) = filename source"
    by (simp add: createTypeNode_def createMessageTypeNode_alt createEnumTypeNode_alt
          t(2) [OF assms(2)] assms(2) Let_def
        split: FieldKind.splits MapValue.splits)
qed


lemma oneofCase_same:
  assumes "\<forall>stmts n. fst (imports_typeByName gen (source\<lparr>statements := stmts\<rparr>) n) =
                     fst (imports_typeByName gen source n)"
    and "filename s = filename source"
  shows "fst (oneofCase gen s pmd fi) = fst (oneofCase gen source pmd fi)"
    and "filename (snd (oneofCase gen s pmd fi)) = filename source"
proof -
  note c = createTypeNode_same [OF assms]
  show "fst (oneofCase gen s pmd fi) = fst (oneofCase gen source pmd fi)"
    by (simp add: oneofCase_def case_prod_beta c(1) Let_def split: option.splits sum.splits)
  show "filename (snd (oneofCase gen s pmd fi)) = filename source"
    by (simp add: oneofCase_def case_prod_beta c(2) assms(2) Let_def
        split: option.splits sum.splits)
qed

lemma oneofCases_loop_same:
  assumes "\<forall>stmts n. fst (imports_typeByName gen (source\<lparr>statements := stmts\<rparr>) n) =
                     fst (imports_typeByName gen source n)"
    and "filename s = filename source"
  shows "fst (oneofCases_loop gen s pmd fis acc) = fst (oneofCases_loop gen source pmd fis acc)
       \<and> filename (snd (oneofCases_loop gen s pmd fis acc)) = filename source"
  using assms(2)
proof (induction fis arbitrary: s acc)
  case Nil
  then show ?case by simp
next
  case (Cons fi fis)
  obtain r s1 where a: "oneofCase gen s pmd fi = (r, s1)" by (cases "oneofCase gen s pmd fi")
  obtain r0 s0 where b: "oneofCase gen source pmd fi = (r0, s0)"
    by (cases "oneofCase gen source pmd fi")
  from oneofCase_same [OF assms(1) Cons.prems, of pmd fi] a b
  have r: "r0 = r" and f1: "filename s1 = filename source" by simp_all
  from oneofCase_same(2) [OF assms(1) refl, of pmd fi] b
  have f0: "filename s0 = filename source" by simp
  show ?case
  proof (cases r)
    case (Inl e)
    then show ?thesis using a b r f1 by simp
  next
    case (Inr c)
    from Cons.IH [OF f1, of "acc @ [c]"] Cons.IH [OF f0, of "acc @ [c]"]
    show ?thesis using a b r Inr by simp
  qed
qed

lemma createOneofADTTypeNode_same:
  assumes "\<forall>stmts n. fst (imports_typeByName gen (source\<lparr>statements := stmts\<rparr>) n) =
                     fst (imports_typeByName gen source n)"
    and "filename s = filename source"
  shows "fst (createOneofADTTypeNode gen s d) = fst (createOneofADTTypeNode gen source d)"
    and "filename (snd (createOneofADTTypeNode gen s d)) = filename source"
proof -
  note l = oneofCases_loop_same [OF assms]
  show "fst (createOneofADTTypeNode gen s d) = fst (createOneofADTTypeNode gen source d)"
    by (simp add: createOneofADTTypeNode_def case_prod_beta l Let_def split: sum.splits)
  show "filename (snd (createOneofADTTypeNode gen s d)) = filename source"
    by (simp add: createOneofADTTypeNode_def case_prod_beta l assms(2) Let_def
        split: sum.splits)
qed

lemma body_same:
  assumes "\<forall>stmts n. fst (imports_typeByName gen (source\<lparr>statements := stmts\<rparr>) n) =
                     fst (imports_typeByName gen source n)"
    and "filename s = filename source"
  shows "fst (generateMessageClass_body gen s dm fi st) =
         fst (generateMessageClass_body gen source dm fi st)"
    and "filename (snd (generateMessageClass_body gen s dm fi st)) = filename source"
proof -
  note c = createTypeNode_same [OF assms]
  note u = createOneofADTTypeNode_same [OF assms]
  show "fst (generateMessageClass_body gen s dm fi st) =
         fst (generateMessageClass_body gen source dm fi st)"
    by (simp add: generateMessageClass_body_def case_prod_beta c(1) u(1)
        split: option.splits sum.splits)
  show "filename (snd (generateMessageClass_body gen s dm fi st)) = filename source"
    by (simp add: generateMessageClass_body_def case_prod_beta c(2) u(2) assms(2)
        split: option.splits sum.splits)
qed

lemma loop_same:
  assumes "\<forall>stmts n. fst (imports_typeByName gen (source\<lparr>statements := stmts\<rparr>) n) =
                     fst (imports_typeByName gen source n)"
    and "filename s = filename source"
  shows "fst (generateMessageClass_loop gen s dm fis st) =
         fst (generateMessageClass_loop gen source dm fis st)
       \<and> filename (snd (generateMessageClass_loop gen s dm fis st)) = filename source"
  using assms(2)
proof (induction fis arbitrary: s st)
  case Nil
  then show ?case by simp
next
  case (Cons fi fis)
  obtain r s1 where a: "generateMessageClass_body gen s dm fi st = (r, s1)"
    by (cases "generateMessageClass_body gen s dm fi st")
  obtain r0 s0 where b: "generateMessageClass_body gen source dm fi st = (r0, s0)"
    by (cases "generateMessageClass_body gen source dm fi st")
  from body_same [OF assms(1) Cons.prems, of dm fi st] a b
  have r: "r0 = r" and f1: "filename s1 = filename source" by simp_all
  from body_same(2) [OF assms(1) refl, of dm fi st] b
  have f0: "filename s0 = filename source" by simp
  show ?case
  proof (cases r)
    case (Inl e)
    then show ?thesis using a b r f1 by simp
  next
    case (Inr st1)
    from Cons.IH [OF f1, of st1] Cons.IH [OF f0, of st1]
    show ?thesis using a b r Inr by simp
  qed
qed

subsection \<open>The example evaluated\<close>

lemmas shape_defs = shape_parent_def selector_oneof_def shape_desc_def width_field_def
  area_field_def label_field_def anchor_field_def shape_type_def shape_gen_def shape_file_def
  selector_union_def shape_params_def shape_class_def stray_field_def with_fields_def
  shape_file_imported_def

lemmas generator_defs = typeByName_def typeOf_def createTypeNode_def createScalarTypeNode_def
  createEnumTypeNode_def createMessageTypeNode_def oneofInfo_def oneofCase_def
  createOneofADTTypeNode_def oneofOfBoth_def generateMessageClass_body_def
  generateMessageClass_def addStatement_def inOneof_def


lemma shape_union:
  "createOneofADTTypeNode (shape_gen l) shape_file selector_oneof =
     (Inr selector_union, shape_file_imported)"
  by (simp add: shape_defs generator_defs)


lemma shape_generate:
  "generateMessageClass (shape_gen LongType_STRING) shape_file shape_desc
   = (Inr shape_class, addStatement shape_file_imported shape_class)"
  by (simp add: shape_defs generator_defs Let_def)

subsection \<open>Oneof groups and the class\<close>





text \<open>
  C2, as amended. Let the fields before \<open>fi\<close> have been processed. Generation of the
  message fails at once with the assertion error, returns no declaration and leaves the
  file as those fields left it, so that no class is added to it, when either the
  descriptor has no field of the number of \<open>fi\<close>, or \<open>fi\<close> opens its group (the metadata
  gives it a group name that is not empty and not yet processed, the descriptor gives it
  a oneof) and the first member of that oneof has no field metadata or no group name in
  the metadata.
\<close>

theorem contract_violation_aborts:
  assumes "mt_fields (getMessageType gen (typeName dm)) = pre @ fi # post"
    and "generateMessageClass_loop gen source dm pre ([], []) =
           (Inr (processed, params), source1)"
    and "find (\<lambda>descField. number descField = no fi) (fields dm) = None
       \<or> (\<exists>df g d sampleField others.
             find (\<lambda>descField. number descField = no fi) (fields dm) = Some df
           \<and> oneofOfBoth fi df = Some (g, d)
           \<and> g \<notin> set processed
           \<and> oneof_fields d = sampleField # others
           \<and> (case find (\<lambda>fi'. no fi' = number sampleField)
                      (mt_fields (getMessageType gen (typeName (parent d)))) of
                 None \<Rightarrow> True
               | Some sampleFieldInfo \<Rightarrow> oneof sampleFieldInfo = None))"
  shows "generateMessageClass gen source dm = (Inl (Error None), source1)"
proof -
  have "generateMessageClass_body gen source1 dm fi (processed, params) =
      (Inl (Error None), source1)"
    using assms(3)
    by (auto simp add: generateMessageClass_body_def oneofInfo_def Let_def
             split: option.splits)
  from generateMessageClass_fails [OF assms(1,2) this] show ?thesis .
qed

text \<open>
  Two runs that abort. In the first the metadata has a field 9 that the descriptor lacks,
  after a message field whose import stays in the file. In the second the member
  \<^verbatim>\<open>anchor\<close> opens the group while the first member of the oneof, \<^verbatim>\<open>label\<close>, has no
  group name in the metadata.
\<close>

theorem contract_violation_aborts_witness:
  "generateMessageClass
     (with_fields [anchor_field\<lparr>oneof := None\<rparr>, stray_field, area_field]) shape_file
     shape_desc = (Inl (Error None), shape_file_imported)
   \<and> generateMessageClass
       (with_fields [width_field, label_field\<lparr>oneof := None\<rparr>, anchor_field]) shape_file
       shape_desc = (Inl (Error None), shape_file)"
proof -
  let ?G1 = "with_fields [anchor_field\<lparr>oneof := None\<rparr>, stray_field, area_field]"
  have a1: "mt_fields (getMessageType ?G1 (typeName shape_desc)) =
      [anchor_field\<lparr>oneof := None\<rparr>] @ stray_field # [area_field]"
    by (simp add: with_fields_def)
  have a2: "generateMessageClass_loop ?G1 shape_file shape_desc
      [anchor_field\<lparr>oneof := None\<rparr>] ([], []) =
      (Inr ([], [Parameter [PublicKeyword, ReadonlyKeyword] ''anchor'' None
                   (Some (TypeReferenceNode ''Point''))]), shape_file_imported)"
    by (simp add: shape_defs generator_defs)
  have a3: "find (\<lambda>descField. number descField = no stray_field) (fields shape_desc) = None"
    by (simp add: shape_defs)
  let ?G2 = "with_fields [width_field, label_field\<lparr>oneof := None\<rparr>, anchor_field]"
  have b1: "mt_fields (getMessageType ?G2 (typeName shape_desc)) =
      [width_field, label_field\<lparr>oneof := None\<rparr>] @ anchor_field # []"
    by (simp add: with_fields_def)
  have b2: "generateMessageClass_loop ?G2 shape_file shape_desc
      [width_field, label_field\<lparr>oneof := None\<rparr>] ([], []) =
      (Inr ([], [Parameter [PublicKeyword, ReadonlyKeyword] ''width'' None
                   (Some (KeywordTypeNode NumberKeyword)),
                 Parameter [PublicKeyword, ReadonlyKeyword] ''label'' None
                   (Some (KeywordTypeNode StringKeyword))]), shape_file)"
    by (simp add: shape_defs generator_defs)
  have b3: "\<exists>df g d sampleField others.
             find (\<lambda>descField. number descField = no anchor_field) (fields shape_desc) = Some df
           \<and> oneofOfBoth anchor_field df = Some (g, d)
           \<and> g \<notin> set []
           \<and> oneof_fields d = sampleField # others
           \<and> (case find (\<lambda>fi'. no fi' = number sampleField)
                      (mt_fields (getMessageType ?G2 (typeName (parent d)))) of
                 None \<Rightarrow> True
               | Some sampleFieldInfo \<Rightarrow> oneof sampleFieldInfo = None)"
    by (simp add: shape_defs generator_defs)
  show ?thesis
    using contract_violation_aborts [OF a1 a2 disjI1 [OF a3]]
      contract_violation_aborts [OF b1 b2 disjI2 [OF b3]]
    by simp
qed

text \<open>
  C2 as stated fails. The descriptor puts field 3 first in the oneof \<^verbatim>\<open>selector\<close>, the
  metadata gives the field no group name: the test \<^verbatim>\<open>fieldInfo.oneof && descField.oneof\<close>
  is false, the field becomes a regular parameter and the class is generated.
\<close>

theorem oneof_without_group_name_is_regular_field:
  "find (\<lambda>descField. number descField = 3) (fields shape_desc) =
     Some (DescField 3 ''field Shape.label'' (Some selector_oneof))
   \<and> map number (oneof_fields selector_oneof) = [3, 4]
   \<and> map (\<lambda>fi. (no fi, oneof fi))
        (mt_fields (getMessageType (with_fields [label_field\<lparr>oneof := None\<rparr>]) ''Shape''))
      = [(3, None)]
   \<and> generateMessageClass (with_fields [label_field\<lparr>oneof := None\<rparr>]) shape_file shape_desc =
       (Inr (ClassDeclaration [ExportKeyword] ''ShapeCtor''
               [Constructor
                  [Parameter [PublicKeyword, ReadonlyKeyword] ''label'' None
                     (Some (KeywordTypeNode StringKeyword))]
                  (Block [] True)]),
        addStatement shape_file
          (ClassDeclaration [ExportKeyword] ''ShapeCtor''
             [Constructor
                [Parameter [PublicKeyword, ReadonlyKeyword] ''label'' None
                   (Some (KeywordTypeNode StringKeyword))]
                (Block [] True)]))"
  by (simp add: shape_defs generator_defs Let_def)

text \<open>
  C7. For a field whose kind is none of scalar, enum, message and map, the resolver fails
  with the error \<^verbatim>\<open>unknown kind\<close> followed by the descriptor's text of the field. No
  caller recovers from it: the selection case of a oneof member fails with the same
  error, and so does the generation of a message that has the field as a regular field
  once the fields before it have been processed.
\<close>

theorem unknown_kind_fatal:
  assumes "kind fieldInfo = Kind_other k"
  shows "createTypeNode gen source descField fieldInfo =
      (Inl (Error (Some (''unknown kind '' @ toString descField))), source)
    \<and> (find (\<lambda>fd. number fd = no fieldInfo) (fields pmd) = Some descField \<longrightarrow>
         oneofCase gen source pmd fieldInfo =
           (Inl (Error (Some (''unknown kind '' @ toString descField))), source))
    \<and> (mt_fields (getMessageType gen (typeName dm)) = pre @ fieldInfo # post
        \<and> generateMessageClass_loop gen source dm pre ([], []) = (Inr st, source1)
        \<and> find (\<lambda>fd. number fd = no fieldInfo) (fields dm) = Some descField
        \<and> oneofOfBoth fieldInfo descField = None \<longrightarrow>
         generateMessageClass gen source dm =
           (Inl (Error (Some (''unknown kind '' @ toString descField))), source1))"
proof -
  have a: "createTypeNode gen s descField fieldInfo =
      (Inl (Error (Some (''unknown kind '' @ toString descField))), s)" for s
    using assms by (simp add: createTypeNode_def)
  have b: "oneofCase gen source pmd fieldInfo =
      (Inl (Error (Some (''unknown kind '' @ toString descField))), source)"
    if "find (\<lambda>fd. number fd = no fieldInfo) (fields pmd) = Some descField"
    using that a by (simp add: oneofCase_def)
  have c: "generateMessageClass gen source dm =
      (Inl (Error (Some (''unknown kind '' @ toString descField))), source1)"
    if f: "mt_fields (getMessageType gen (typeName dm)) = pre @ fieldInfo # post"
      and l: "generateMessageClass_loop gen source dm pre ([], []) = (Inr st, source1)"
      and d: "find (\<lambda>fd. number fd = no fieldInfo) (fields dm) = Some descField"
      and o: "oneofOfBoth fieldInfo descField = None"
  proof -
    have "generateMessageClass_body gen source1 dm fieldInfo st =
        (Inl (Error (Some (''unknown kind '' @ toString descField))), source1)"
      using d o a by (cases st) (simp add: generateMessageClass_body_def)
    from generateMessageClass_fails [OF f l this] show ?thesis .
  qed
  show ?thesis using a b c by blast
qed

text \<open>The field \<^verbatim>\<open>width\<close> with the kind \<^verbatim>\<open>group\<close>.\<close>

theorem unknown_kind_fatal_witness:
  "createTypeNode (with_fields [width_field\<lparr>kind := Kind_other ''group''\<rparr>, area_field])
       shape_file (DescField 1 ''field Shape.width'' None)
       (width_field\<lparr>kind := Kind_other ''group''\<rparr>)
     = (Inl (Error (Some ''unknown kind field Shape.width'')), shape_file)
   \<and> oneofCase (with_fields [width_field\<lparr>kind := Kind_other ''group''\<rparr>, area_field])
       shape_file shape_parent (width_field\<lparr>kind := Kind_other ''group''\<rparr>)
     = (Inl (Error (Some ''unknown kind field Shape.width'')), shape_file)
   \<and> generateMessageClass
       (with_fields [width_field\<lparr>kind := Kind_other ''group''\<rparr>, area_field])
       shape_file shape_desc
     = (Inl (Error (Some ''unknown kind field Shape.width'')), shape_file)"
  using unknown_kind_fatal [where fieldInfo = "width_field\<lparr>kind := Kind_other ''group''\<rparr>"
      and k = "''group''"
      and gen = "with_fields [width_field\<lparr>kind := Kind_other ''group''\<rparr>, area_field]"
      and source = shape_file and descField = "DescField 1 ''field Shape.width'' None"
      and pmd = shape_parent and dm = shape_desc and pre = "[]" and post = "[area_field]"
      and st = "([], [])" and ?source1.0 = shape_file]
  by (simp add: shape_defs oneofOfBoth_def)

text \<open>
  C6. Generating the class of a message a second time, on the source file as the first
  run left it, returns the same class declaration (parameters and union variants in the
  same order) and adds it to the file again, provided the names the two import resolvers
  return do not depend on the statements the file holds.
\<close>

theorem generateMessageClass_idempotent:
  assumes "\<forall>stmts n. fst (imports_typeByName gen (source\<lparr>statements := stmts\<rparr>) n) =
                     fst (imports_typeByName gen source n)"
    and "\<forall>stmts n k. fst (imports_type gen (source\<lparr>statements := stmts\<rparr>) n k) =
                       fst (imports_type gen source n k)"
    and "generateMessageClass gen source descMessage = (Inr statement, source')"
  shows "\<exists>s. generateMessageClass gen source' descMessage =
               (Inr statement, addStatement s statement)
           \<and> filename s = filename source"
proof -
  let ?fis = "mt_fields (getMessageType gen (typeName descMessage))"
  obtain r s1 where l: "generateMessageClass_loop gen source descMessage ?fis ([], []) = (r, s1)"
    by (cases "generateMessageClass_loop gen source descMessage ?fis ([], [])")
  from assms(3) l obtain processed params where r: "r = Inr (processed, params)"
    by (cases r) (auto simp add: generateMessageClass_def Let_def)
  from loop_same [OF assms(1) refl, of descMessage ?fis "([], [])"] l
  have f1: "filename s1 = filename source" by simp
  let ?name = "fst (imports_type gen source (typeName descMessage) ''message-class'')"
  have n1: "fst (typeOf gen s1 (typeName descMessage) ''message-class'') = ?name"
    using assms(2) same_file [OF f1] by (metis typeOf_alt fst_conv)
  from assms(3) l r n1 have st: "statement =
      ClassDeclaration [ExportKeyword] ?name [Constructor params (Block [] True)]"
    and s': "source' =
      addStatement (snd (typeOf gen s1 (typeName descMessage) ''message-class'')) statement"
    by (auto simp add: generateMessageClass_def Let_def case_prod_beta)
  have f': "filename source' = filename source"
    unfolding s' using f1 by (simp add: addStatement_def typeOf_alt)
  obtain r2 s2 where l2:
    "generateMessageClass_loop gen source' descMessage ?fis ([], []) = (r2, s2)"
    by (cases "generateMessageClass_loop gen source' descMessage ?fis ([], [])")
  from loop_same [OF assms(1) f', of descMessage ?fis "([], [])"] l l2 r
  have r2: "r2 = Inr (processed, params)" and f2: "filename s2 = filename source"
    by simp_all
  have n2: "fst (typeOf gen s2 (typeName descMessage) ''message-class'') = ?name"
    using assms(2) same_file [OF f2] by (metis typeOf_alt fst_conv)
  let ?s = "snd (typeOf gen s2 (typeName descMessage) ''message-class'')"
  have "generateMessageClass gen source' descMessage = (Inr statement, addStatement ?s statement)"
    using l2 r2 n2 st by (simp add: generateMessageClass_def Let_def case_prod_beta)
  moreover have "filename ?s = filename source"
    using f2 by (simp add: typeOf_alt)
  ultimately show ?thesis by blast
qed

text \<open>The class of \<^verbatim>\<open>Shape\<close>, generated twice into the same file.\<close>

theorem generateMessageClass_idempotent_witness:
  "generateMessageClass (shape_gen LongType_STRING) shape_file shape_desc
     = (Inr shape_class, addStatement shape_file_imported shape_class)
   \<and> generateMessageClass (shape_gen LongType_STRING)
       (addStatement shape_file_imported shape_class) shape_desc
     = (Inr shape_class,
        addStatement (addStatement shape_file_imported shape_class) shape_class)"
proof -
  have 1: "\<forall>stmts n. fst (imports_typeByName (shape_gen LongType_STRING)
               (shape_file\<lparr>statements := stmts\<rparr>) n) =
             fst (imports_typeByName (shape_gen LongType_STRING) shape_file n)"
    by (simp add: shape_gen_def)
  have 2: "\<forall>stmts n k. fst (imports_type (shape_gen LongType_STRING)
               (shape_file\<lparr>statements := stmts\<rparr>) n k) =
             fst (imports_type (shape_gen LongType_STRING) shape_file n k)"
    by (simp add: shape_gen_def)
  have 3: "generateMessageClass (shape_gen LongType_STRING) shape_file shape_desc
     = (Inr shape_class, addStatement shape_file_imported shape_class)"
    by (rule shape_generate)
  from generateMessageClass_idempotent [OF 1 2 3] obtain s where
    s: "generateMessageClass (shape_gen LongType_STRING)
          (addStatement shape_file_imported shape_class) shape_desc
        = (Inr shape_class, addStatement s shape_class)" by blast
  have "snd (generateMessageClass (shape_gen LongType_STRING)
          (addStatement shape_file_imported shape_class) shape_desc)
        = addStatement (addStatement shape_file_imported shape_class) shape_class"
    by (simp add: shape_defs generator_defs Let_def)
  with s 3 show ?thesis by simp
qed

end
